theory Spec2Isabelle
  imports Complex_Main "HOL-Library.AList"
begin

section \<open>Expense tracker: the ledger of \<^verbatim>\<open>src/app.js\<close>\<close>

text \<open>
  The development embeds the class \<^verbatim>\<open>Tracker\<close> and the helper \<^verbatim>\<open>Utils.evalMath\<close> of
  \<^verbatim>\<open>src/app.js\<close>. The program is JavaScript, so its values are dynamically typed:
  \<^verbatim>\<open>this.state\<close> is whatever \<^verbatim>\<open>JSON.parse\<close> returned last, and every property read,
  addition and method call has a defined behaviour on every value. The model keeps that:
  the state is a JavaScript value, and each operation says what it returns, what it
  throws, and what it leaves behind.

  Three conventions hold throughout.
  \<^item> Numbers are the doubles of IEEE 754: a finite double is the rational it is worth,
    and there are the negative zero, the two infinities and \<open>NaN\<close>. A literal and the
    result of every operation are rounded to the nearest double, a tie going to the
    even significand; a result too large becomes an infinity, one too small goes
    through the subnormal doubles to a zero.
  \<^item> Strings are lists of 8-bit characters; code units above 255 are not represented.
  \<^item> A computation has one of three outcomes: it returns, it throws, or it is
    \<open>Beyond\<close> the model. \<open>Beyond\<close> marks the places where JavaScript needs a
    number printed as text or runs a construct the model does not cover; nothing is
    stated about such a run.
\<close>

subsection \<open>Outcomes\<close>

text \<open>The values the program throws.\<close>

datatype exn =
    ThrownBad            \<comment> \<open>\<^verbatim>\<open>throw "bad"\<close> in \<^verbatim>\<open>evalMath\<close>\<close>
  | EmptyExpression      \<comment> \<open>\<^verbatim>\<open>new Error("Empty expression")\<close>\<close>
  | InvalidDataFormat    \<comment> \<open>\<^verbatim>\<open>new Error("Invalid data format")\<close>\<close>
  | SyntaxError          \<comment> \<open>thrown by \<^verbatim>\<open>Function\<close> and \<^verbatim>\<open>JSON.parse\<close>\<close>
  | TypeError            \<comment> \<open>thrown by a property access or a call on the wrong value\<close>

datatype 'a outcome = Returns 'a | Throws exn | Beyond

subsection \<open>Numbers\<close>

text \<open>
  \<open>Fin x\<close> is the finite double worth \<open>x\<close>, and \<open>Fin 0\<close> the positive zero. Not every
  rational is a double: the doubles are the values that \<open>fl\<close> leaves as they are.
\<close>

datatype num = Fin rat | NegZero | PosInf | NegInf | NaN

text \<open>The number of binary digits of a natural number.\<close>

fun bits :: "nat \<Rightarrow> nat" where
  "bits n = (if n = 0 then 0 else Suc (bits (n div 2)))"

declare bits.simps [simp del]

text \<open>The exponent \<open>e\<close> of a positive rational: \<open>2\<^sup>e \<le> a < 2\<^sup>e\<^sup>+\<^sup>1\<close>.\<close>

definition ilog2 :: "rat \<Rightarrow> int" where
  "ilog2 a = (if 1 \<le> a then int (bits (nat \<lfloor>a\<rfloor>)) - 1
              else - int (bits (nat (\<lceil>1 / a\<rceil> - 1))))"

text \<open>The integer nearest to a rational that is not negative, a tie going to the even one.\<close>

definition round_even :: "rat \<Rightarrow> int" where
  "round_even m =
     (if m - of_int \<lfloor>m\<rfloor> < 1 / 2 then \<lfloor>m\<rfloor>
      else if 1 / 2 < m - of_int \<lfloor>m\<rfloor> then \<lfloor>m\<rfloor> + 1
      else if even \<lfloor>m\<rfloor> then \<lfloor>m\<rfloor> else \<lfloor>m\<rfloor> + 1)"

definition signed_inf :: "bool \<Rightarrow> num" where
  "signed_inf neg = (if neg then NegInf else PosInf)"

definition signed_zero :: "bool \<Rightarrow> num" where
  "signed_zero neg = (if neg then NegZero else Fin 0)"

text \<open>
  Rounding to the nearest double (binary64, round to nearest, ties to even). A double
  is a multiple of \<open>2\<^sup>q\<close> by an integer below \<open>2\<^sup>5\<^sup>3\<close>, where \<open>q\<close> is the exponent of the
  number less 52, and never less than -1074 (the subnormal doubles). A magnitude that
  rounds to \<open>2\<^sup>1\<^sup>0\<^sup>2\<^sup>4\<close> is an infinity, one that rounds to nothing is a zero; both
  keep the sign.
\<close>

definition pack :: "bool \<Rightarrow> rat \<Rightarrow> num" where
  "pack neg r =
     (if 2 ^ 1024 \<le> r then signed_inf neg
      else if r = 0 then signed_zero neg
      else Fin (if neg then - r else r))"

definition fl_at :: "int \<Rightarrow> rat \<Rightarrow> num" where
  "fl_at q x = pack (x < 0) (of_int (round_even (\<bar>x\<bar> / 2 powi q)) * 2 powi q)"

definition fl :: "rat \<Rightarrow> num" where
  "fl x = (if x = 0 then Fin 0 else fl_at (max (ilog2 \<bar>x\<bar>) (- 1022) - 52) x)"

text \<open>The sign bit, being a zero, being finite, and what a finite number is worth.\<close>

fun is_neg :: "num \<Rightarrow> bool" where
  "is_neg (Fin x) = (x < 0)"
| "is_neg NegZero = True"
| "is_neg NegInf = True"
| "is_neg _ = False"

fun is_zero :: "num \<Rightarrow> bool" where
  "is_zero (Fin x) = (x = 0)"
| "is_zero NegZero = True"
| "is_zero _ = False"

fun is_finite :: "num \<Rightarrow> bool" where
  "is_finite (Fin x) = True"
| "is_finite NegZero = True"
| "is_finite _ = False"

fun val :: "num \<Rightarrow> rat" where
  "val (Fin x) = x"
| "val _ = 0"

fun num_neg :: "num \<Rightarrow> num" where
  "num_neg (Fin x) = (if x = 0 then NegZero else Fin (- x))"
| "num_neg NegZero = Fin 0"
| "num_neg PosInf = NegInf"
| "num_neg NegInf = PosInf"
| "num_neg NaN = NaN"

text \<open>
  The operator \<^verbatim>\<open>+\<close> on two numbers. An exact sum of zero is the positive zero, unless
  both operands are negative zeros; infinities of opposite sign add up to \<open>NaN\<close>.
\<close>

definition num_add :: "num \<Rightarrow> num \<Rightarrow> num" where
  "num_add a b =
     (if a = NaN \<or> b = NaN then NaN
      else if is_finite a \<and> is_finite b then
        (if val a + val b = 0 then signed_zero (is_neg a \<and> is_neg b)
         else fl (val a + val b))
      else if is_finite a then b
      else if is_finite b then a
      else if a = b then a else NaN)"

definition num_sub :: "num \<Rightarrow> num \<Rightarrow> num" where
  "num_sub a b = num_add a (num_neg b)"

text \<open>The operator \<^verbatim>\<open>*\<close>: the sign is the product of the signs, zero times infinity is \<open>NaN\<close>.\<close>

definition num_mul :: "num \<Rightarrow> num \<Rightarrow> num" where
  "num_mul a b =
     (if a = NaN \<or> b = NaN then NaN
      else if is_finite a \<and> is_finite b then
        (if val a * val b = 0 then signed_zero (is_neg a \<noteq> is_neg b)
         else fl (val a * val b))
      else if is_zero a \<or> is_zero b then NaN
      else signed_inf (is_neg a \<noteq> is_neg b))"

text \<open>
  The operator \<^verbatim>\<open>/\<close>: a non-zero number over a zero is an infinity, zero over zero and
  infinity over infinity are \<open>NaN\<close>, a finite number over an infinity is a zero; the
  sign is the quotient of the signs, those of the zeros included.
\<close>

definition num_div :: "num \<Rightarrow> num \<Rightarrow> num" where
  "num_div a b =
     (if a = NaN \<or> b = NaN then NaN
      else if is_finite a \<and> is_finite b then
        (if is_zero b then (if is_zero a then NaN else signed_inf (is_neg a \<noteq> is_neg b))
         else if is_zero a then signed_zero (is_neg a \<noteq> is_neg b)
         else fl (val a / val b))
      else if is_finite a then signed_zero (is_neg a \<noteq> is_neg b)
      else if is_finite b then signed_inf (is_neg a \<noteq> is_neg b)
      else NaN)"

text \<open>
  \<^verbatim>\<open>Math.round\<close>: the integer nearest to the argument, a tie going up, towards
  \<open>+Infinity\<close>. So \<^verbatim>\<open>Math.round(2.5)\<close> is 3 and \<^verbatim>\<open>Math.round(-2.5)\<close> is -2; what rounds
  to zero from below is the negative zero.
\<close>

fun Math_round :: "num \<Rightarrow> num" where
  "Math_round (Fin x) =
     (if \<lfloor>x + 1 / 2\<rfloor> = 0 then signed_zero (x < 0) else Fin (of_int \<lfloor>x + 1 / 2\<rfloor>))"
| "Math_round a = a"

text \<open>The rounding of \<^verbatim>\<open>addEntry\<close>: \<^verbatim>\<open>Math.round(x * 100) / 100\<close>.\<close>

definition round2 :: "num \<Rightarrow> num" where
  "round2 x = num_div (Math_round (num_mul x (Fin 100))) (Fin 100)"

text \<open>The comparison \<^verbatim>\<open>===\<close> of two numbers: the two zeros are equal, \<open>NaN\<close> equals nothing.\<close>

definition strict_equal :: "num \<Rightarrow> num \<Rightarrow> bool" where
  "strict_equal a b \<longleftrightarrow> a \<noteq> NaN \<and> b \<noteq> NaN \<and> (a = b \<or> is_zero a \<and> is_zero b)"

subsection \<open>Values\<close>

text \<open>
  A JavaScript value as the program meets it: what \<^verbatim>\<open>JSON.parse\<close> builds, the numbers
  \<^verbatim>\<open>evalMath\<close> returns and \<^verbatim>\<open>undefined\<close>. An object is the list of its own properties in
  enumeration order, each name once.
\<close>

datatype jv =
    VUndef
  | VNull
  | VBool bool
  | VNum num
  | VStr string
  | VArr "jv list"
  | VObj "(string \<times> jv) list"

text \<open>
  \<^verbatim>\<open>!v\<close> is true on the falsy values: \<^verbatim>\<open>undefined\<close>, \<^verbatim>\<open>null\<close>, \<^verbatim>\<open>false\<close>, the two zeros,
  \<open>NaN\<close>, \<^verbatim>\<open>""\<close>.
\<close>

fun truthy :: "jv \<Rightarrow> bool" where
  "truthy VUndef = False"
| "truthy VNull = False"
| "truthy (VBool b) = b"
| "truthy (VNum n) = (\<not> is_zero n \<and> n \<noteq> NaN)"
| "truthy (VStr s) = (s \<noteq> [])"
| "truthy (VArr _) = True"
| "truthy (VObj _) = True"

fun isArray :: "jv \<Rightarrow> bool" where
  "isArray (VArr _) = True"
| "isArray _ = False"

text \<open>
  Reading \<^verbatim>\<open>v.k\<close>, for the names the program reads (\<^verbatim>\<open>version\<close>, \<^verbatim>\<open>history\<close>,
  \<^verbatim>\<open>balance\<close>, \<^verbatim>\<open>delta\<close>, \<^verbatim>\<open>length\<close>): on \<^verbatim>\<open>null\<close> and \<^verbatim>\<open>undefined\<close> it throws, on an
  object it is the own property or \<^verbatim>\<open>undefined\<close>, an array and a string have a
  \<^verbatim>\<open>length\<close>, and every other read is \<^verbatim>\<open>undefined\<close>.
\<close>

fun get_prop :: "jv \<Rightarrow> string \<Rightarrow> jv outcome" where
  "get_prop VUndef k = Throws TypeError"
| "get_prop VNull k = Throws TypeError"
| "get_prop (VObj kvs) k = Returns (case map_of kvs k of None \<Rightarrow> VUndef | Some v \<Rightarrow> v)"
| "get_prop (VArr xs) k =
     Returns (if k = ''length'' then VNum (Fin (of_nat (length xs))) else VUndef)"
| "get_prop (VStr s) k =
     Returns (if k = ''length'' then VNum (Fin (of_nat (length s))) else VUndef)"
| "get_prop _ k = Returns VUndef"

text \<open>
  Writing \<^verbatim>\<open>v.k = x\<close> inside the class body, which is strict code: on an object the
  property is replaced where it stands or added at the end; on \<^verbatim>\<open>null\<close>,
  \<^verbatim>\<open>undefined\<close> and the primitive values it throws. An array would take the property
  beside its elements, which \<open>VArr\<close> cannot hold.
\<close>

fun set_prop :: "jv \<Rightarrow> string \<Rightarrow> jv \<Rightarrow> jv outcome" where
  "set_prop (VObj kvs) k x = Returns (VObj (AList.update k x kvs))"
| "set_prop (VArr xs) k x = Beyond"
| "set_prop _ k x = Throws TypeError"

text \<open>
  \<^verbatim>\<open>ToNumber\<close> on the values that are not text, and the operator \<^verbatim>\<open>+\<close>: when an operand
  is a string, an array or an object the result is a concatenation of texts, with
  numbers printed, which is beyond the model; otherwise both operands are converted
  and added.
\<close>

fun to_number :: "jv \<Rightarrow> num" where
  "to_number VNull = Fin 0"
| "to_number (VBool b) = (if b then Fin 1 else Fin 0)"
| "to_number (VNum n) = n"
| "to_number _ = NaN"

fun is_primitive_non_text :: "jv \<Rightarrow> bool" where
  "is_primitive_non_text (VStr _) = False"
| "is_primitive_non_text (VArr _) = False"
| "is_primitive_non_text (VObj _) = False"
| "is_primitive_non_text _ = True"

definition js_plus :: "jv \<Rightarrow> jv \<Rightarrow> num outcome" where
  "js_plus a b =
     (if is_primitive_non_text a \<and> is_primitive_non_text b
      then Returns (num_add (to_number a) (to_number b)) else Beyond)"

subsection \<open>Serialised text\<close>

text \<open>
  \<^verbatim>\<open>JSON.parse\<close> and \<^verbatim>\<open>JSON.stringify\<close> belong to the language. A text is represented
  by what it denotes: the JSON document it spells (white space and the indentation of
  \<^verbatim>\<open>exportData\<close> do not show), or nothing, for a text that is not JSON. A number in a
  document is the rational its digits and exponent spell, so \<^verbatim>\<open>1e400\<close> is \<open>10\<^sup>4\<^sup>0\<^sup>0\<close>; a
  zero written with a minus sign is kept apart, since \<^verbatim>\<open>JSON.parse\<close> reads it as the
  negative zero.
\<close>

datatype json =
    JNull
  | JBool bool
  | JNum rat
  | JMinusZero
  | JStr string
  | JArr "json list"
  | JObj "(string \<times> json) list"

datatype jtext = Doc json | NotJSON

text \<open>\<^verbatim>\<open>JSON.parse\<close> reads a number as the double nearest to it.\<close>

fun of_json :: "json \<Rightarrow> jv" where
  "of_json JNull = VNull"
| "of_json (JBool b) = VBool b"
| "of_json (JNum q) = VNum (fl q)"
| "of_json JMinusZero = VNum NegZero"
| "of_json (JStr s) = VStr s"
| "of_json (JArr xs) = VArr (map of_json xs)"
| "of_json (JObj kvs) = VObj (map (\<lambda>(k, v). (k, of_json v)) kvs)"

definition JSON_parse :: "jtext \<Rightarrow> jv outcome" where
  "JSON_parse t = (case t of Doc j \<Rightarrow> Returns (of_json j) | NotJSON \<Rightarrow> Throws SyntaxError)"

text \<open>
  What \<^verbatim>\<open>JSON.stringify\<close> writes for a value: nothing for \<^verbatim>\<open>undefined\<close> (a property
  holding it is left out, an array element holding it is written \<^verbatim>\<open>null\<close>),
  \<^verbatim>\<open>null\<close> for \<open>NaN\<close> and the infinities, and \<^verbatim>\<open>0\<close> for the negative zero. A finite
  double is written with the fewest digits that read back as the same double; the
  document here holds the double's own value, which reads back as the same double
  too.
\<close>

fun to_json :: "jv \<Rightarrow> json option" where
  "to_json VUndef = None"
| "to_json VNull = Some JNull"
| "to_json (VBool b) = Some (JBool b)"
| "to_json (VNum n) = Some (case n of Fin q \<Rightarrow> JNum q | NegZero \<Rightarrow> JNum 0 | _ \<Rightarrow> JNull)"
| "to_json (VStr s) = Some (JStr s)"
| "to_json (VArr xs) =
     Some (JArr (map (\<lambda>x. case to_json x of None \<Rightarrow> JNull | Some j \<Rightarrow> j) xs))"
| "to_json (VObj kvs) =
     Some (JObj (concat (map (\<lambda>(k, v). case to_json v of None \<Rightarrow> [] | Some j \<Rightarrow> [(k, j)]) kvs)))"

definition JSON_stringify :: "jv \<Rightarrow> jtext option" where
  "JSON_stringify v = map_option Doc (to_json v)"

subsection \<open>Evaluating an expression\<close>

text \<open>
  \<^verbatim>\<open>evalMath\<close> hands the text to the language: \<^verbatim>\<open>Function("return (" + expr + ")")()\<close>
  compiles a function body, as non-strict code, and calls it. The model follows the
  grammar of ECMAScript on the part of it that the tracker is written for: numeric
  literals, the binary operators \<^verbatim>\<open>+ - * /\<close>, the unary \<^verbatim>\<open>+ -\<close>, parentheses and
  white space. The characters \<^verbatim>\<open>evalMath\<close> lets through spell other things too (\<^verbatim>\<open>**\<close>,
  \<^verbatim>\<open>++\<close>, \<^verbatim>\<open>--\<close>, comments, regular expression literals, calls such as \<^verbatim>\<open>(1)(2)\<close>, a
  second statement after a line break); on those the model answers \<open>Beyond\<close>.
\<close>

text \<open>White space and line terminators: what \<^verbatim>\<open>\s\<close> matches and \<^verbatim>\<open>trim\<close> removes.\<close>

definition is_space :: "char \<Rightarrow> bool" where
  "is_space c \<longleftrightarrow> c \<in> set [CHR 0x09, CHR 0x0A, CHR 0x0B, CHR 0x0C, CHR 0x0D, CHR 0x20, CHR 0xA0]"

definition is_digit :: "char \<Rightarrow> bool" where
  "is_digit c \<longleftrightarrow> c \<in> set ''0123456789''"

definition is_octal_digit :: "char \<Rightarrow> bool" where
  "is_octal_digit c \<longleftrightarrow> c \<in> set ''01234567''"

definition digit_val :: "char \<Rightarrow> nat" where
  "digit_val c = of_char c - 48"

definition digits :: "nat \<Rightarrow> string \<Rightarrow> nat" where
  "digits base ds = foldl (\<lambda>n c. base * n + digit_val c) 0 ds"

text \<open>
  A run of digits that starts with 0 and goes on is, in non-strict code, an octal
  literal when all its digits are octal (\<^verbatim>\<open>010\<close> is 8) and a decimal one otherwise
  (\<^verbatim>\<open>018\<close> is 18). A number token carries the rational that the literal spells; its
  value in the program is the double nearest to that.
\<close>

definition legacy_octal :: "string \<Rightarrow> bool" where
  "legacy_octal ds \<longleftrightarrow>
     (case ds of c # d # _ \<Rightarrow> c = CHR ''0'' \<and> list_all is_octal_digit ds | _ \<Rightarrow> False)"

definition int_literal :: "string \<Rightarrow> rat" where
  "int_literal ds = of_nat (if legacy_octal ds then digits 8 ds else digits 10 ds)"

definition frac_literal :: "string \<Rightarrow> rat" where
  "frac_literal fs = of_nat (digits 10 fs) / 10 ^ length fs"

datatype token =
    TNum rat | TPlus | TMinus | TStar | TSlash | TOpen | TClose
  | TDot      \<comment> \<open>a \<^verbatim>\<open>.\<close> that belongs to no number\<close>
  | TOther    \<comment> \<open>the start of anything else; the rest of the text is not read\<close>

text \<open>The number being read: its digits before the point, and those after it.\<close>

datatype pending = NoNum | IntPart string | FracPart string string

fun flush :: "pending \<Rightarrow> token list" where
  "flush NoNum = []"
| "flush (IntPart ds) = [TNum (int_literal ds)]"
| "flush (FracPart ds fs) =
     (if ds = [] \<and> fs = [] then [TDot] else [TNum (int_literal ds + frac_literal fs)])"

text \<open>
  The scanner takes the longest literal. An octal literal has no fraction, so the point
  after \<^verbatim>\<open>010\<close> starts the next token.
\<close>

fun lex :: "pending \<Rightarrow> string \<Rightarrow> token list" where
  "lex p [] = flush p"
| "lex p (c # cs) =
     (if is_digit c then
        (case p of
           NoNum \<Rightarrow> lex (IntPart [c]) cs
         | IntPart ds \<Rightarrow> lex (IntPart (ds @ [c])) cs
         | FracPart ds fs \<Rightarrow> lex (FracPart ds (fs @ [c])) cs)
      else if c = CHR ''.'' then
        (case p of
           NoNum \<Rightarrow> lex (FracPart [] []) cs
         | IntPart ds \<Rightarrow>
             if legacy_octal ds then flush p @ lex (FracPart [] []) cs
             else lex (FracPart ds []) cs
         | FracPart ds fs \<Rightarrow> flush p @ lex (FracPart [] []) cs)
      else flush p @
        (if is_space c then lex NoNum cs
         else if c = CHR ''('' then TOpen # lex NoNum cs
         else if c = CHR '')'' then TClose # lex NoNum cs
         else if c = CHR ''+'' then
           (case cs of d # _ \<Rightarrow> if d = CHR ''+'' then [TOther] else TPlus # lex NoNum cs
                     | [] \<Rightarrow> TPlus # lex NoNum cs)
         else if c = CHR ''-'' then
           (case cs of d # _ \<Rightarrow> if d = CHR ''-'' then [TOther] else TMinus # lex NoNum cs
                     | [] \<Rightarrow> TMinus # lex NoNum cs)
         else if c = CHR ''*'' then
           (case cs of d # _ \<Rightarrow> if d = CHR ''*'' then [TOther] else TStar # lex NoNum cs
                     | [] \<Rightarrow> TStar # lex NoNum cs)
         else if c = CHR ''/'' then
           (case cs of d # _ \<Rightarrow> if d = CHR ''/'' \<or> d = CHR ''*'' then [TOther]
                                else TSlash # lex NoNum cs
                     | [] \<Rightarrow> TSlash # lex NoNum cs)
         else [TOther]))"

text \<open>
  After the expression inside a parenthesis: the parenthesis closes; or another one
  opens, which is a call; or the text is not an expression (it ends, or a number or
  a point follows).
\<close>

fun close_paren :: "num \<Rightarrow> token list \<Rightarrow> (num \<times> token list) outcome" where
  "close_paren v (TClose # r) = Returns (v, r)"
| "close_paren v (TOpen # r) = Beyond"
| "close_paren v (TOther # r) = Beyond"
| "close_paren v r = Throws SyntaxError"

text \<open>
  The expression grammar, one function for each of \<open>UnaryExpression\<close>,
  \<open>MultiplicativeExpression\<close> and \<open>AdditiveExpression\<close>; each returns the value and the
  tokens it has not read. A \<^verbatim>\<open>/\<close> where an operand is due opens a regular expression
  literal. The comparisons of lengths never fail (lemma \<open>parse_shorter\<close> below): they
  record, where the recursion needs it, that reading an expression consumes tokens.
\<close>

function (sequential)
  unary :: "token list \<Rightarrow> (num \<times> token list) outcome" and
  multiplicative :: "token list \<Rightarrow> (num \<times> token list) outcome" and
  multiplicative_rest :: "num \<Rightarrow> token list \<Rightarrow> (num \<times> token list) outcome" and
  additive :: "token list \<Rightarrow> (num \<times> token list) outcome" and
  additive_rest :: "num \<Rightarrow> token list \<Rightarrow> (num \<times> token list) outcome"
where
  "unary (TNum q # ts) = Returns (fl q, ts)"
| "unary (TPlus # ts) = unary ts"
| "unary (TMinus # ts) =
     (case unary ts of
        Returns (v, r) \<Rightarrow> Returns (num_neg v, r)
      | Throws e \<Rightarrow> Throws e
      | Beyond \<Rightarrow> Beyond)"
| "unary (TOpen # ts) =
     (case additive ts of
        Returns (v, r) \<Rightarrow> close_paren v r
      | Throws e \<Rightarrow> Throws e
      | Beyond \<Rightarrow> Beyond)"
| "unary (TSlash # ts) = Beyond"
| "unary (TOther # ts) = Beyond"
| "unary ts = Throws SyntaxError"
| "multiplicative ts =
     (case unary ts of
        Returns (v, r) \<Rightarrow> if length r \<le> length ts then multiplicative_rest v r else Beyond
      | Throws e \<Rightarrow> Throws e
      | Beyond \<Rightarrow> Beyond)"
| "multiplicative_rest v (TStar # ts) =
     (case unary ts of
        Returns (w, r) \<Rightarrow>
          if length r \<le> length ts then multiplicative_rest (num_mul v w) r else Beyond
      | Throws e \<Rightarrow> Throws e
      | Beyond \<Rightarrow> Beyond)"
| "multiplicative_rest v (TSlash # ts) =
     (case unary ts of
        Returns (w, r) \<Rightarrow>
          if length r \<le> length ts then multiplicative_rest (num_div v w) r else Beyond
      | Throws e \<Rightarrow> Throws e
      | Beyond \<Rightarrow> Beyond)"
| "multiplicative_rest v ts = Returns (v, ts)"
| "additive ts =
     (case multiplicative ts of
        Returns (v, r) \<Rightarrow> if length r \<le> length ts then additive_rest v r else Beyond
      | Throws e \<Rightarrow> Throws e
      | Beyond \<Rightarrow> Beyond)"
| "additive_rest v (TPlus # ts) =
     (case multiplicative ts of
        Returns (w, r) \<Rightarrow>
          if length r \<le> length ts then additive_rest (num_add v w) r else Beyond
      | Throws e \<Rightarrow> Throws e
      | Beyond \<Rightarrow> Beyond)"
| "additive_rest v (TMinus # ts) =
     (case multiplicative ts of
        Returns (w, r) \<Rightarrow>
          if length r \<le> length ts then additive_rest (num_sub v w) r else Beyond
      | Throws e \<Rightarrow> Throws e
      | Beyond \<Rightarrow> Beyond)"
| "additive_rest v ts = Returns (v, ts)"
  by pat_completeness auto
termination
  by (relation "measure (\<lambda>x. case x of
        Inl (Inl ts) \<Rightarrow> 5 * length ts
      | Inl (Inr ts) \<Rightarrow> 5 * length ts + 2
      | Inr (Inl (v, ts)) \<Rightarrow> 5 * length ts + 1
      | Inr (Inr (Inl ts)) \<Rightarrow> 5 * length ts + 4
      | Inr (Inr (Inr (v, ts))) \<Rightarrow> 5 * length ts + 3)") auto

text \<open>
  The statement \<^verbatim>\<open>return\<close> \<open>Expression\<close>. When the expression ends before the text
  does, a \<^verbatim>\<open>)\<close> or a point there is a syntax error; a number may start a second
  statement if a line break precedes it, and a \<^verbatim>\<open>(\<close> is a call.
\<close>

definition return_statement :: "token list \<Rightarrow> num outcome" where
  "return_statement ts =
     (case additive ts of
        Returns (v, r) \<Rightarrow>
          (case r of
             [] \<Rightarrow> Returns v
           | TClose # _ \<Rightarrow> Throws SyntaxError
           | TDot # _ \<Rightarrow> Throws SyntaxError
           | _ \<Rightarrow> Beyond)
      | Throws e \<Rightarrow> Throws e
      | Beyond \<Rightarrow> Beyond)"

text \<open>\<^verbatim>\<open>Function(body)()\<close>, for a body that is one \<^verbatim>\<open>return\<close> statement.\<close>

definition Function_call :: "string \<Rightarrow> num outcome" where
  "Function_call body =
     (if take 7 body = ''return '' then return_statement (lex NoNum (drop 7 body))
      else Beyond)"

text \<open>The test \<^verbatim>\<open>/^[0-9+\-*/().\s]+$/\<close>.\<close>

definition allowed :: "char \<Rightarrow> bool" where
  "allowed c \<longleftrightarrow> is_digit c \<or> c \<in> set ''+-*/().'' \<or> is_space c"

definition evalMath :: "string \<Rightarrow> num outcome" where
  "evalMath expr =
     (if \<not> (expr \<noteq> [] \<and> list_all allowed expr) then Throws ThrownBad
      else Function_call (''return ('' @ expr @ '')''))"

subsection \<open>The tracker\<close>

text \<open>
  A \<^verbatim>\<open>Tracker\<close> holds its storage (\<^verbatim>\<open>null\<close> when none is given and there is no
  \<^verbatim>\<open>localStorage\<close>) and its state. The storage maps a key to the text kept under it.
  The clock is a parameter: \<open>today\<close> is what \<^verbatim>\<open>Utils.todayISO()\<close> returns and \<open>now\<close>
  what \<^verbatim>\<open>Date.now()\<close> returns, a count of milliseconds, which is an integer far below
  \<open>2\<^sup>5\<^sup>3\<close> and so a double.
\<close>

type_synonym store = "string \<rightharpoonup> jtext"

record tracker =
  storage :: "store option"
  state :: jv

definition KEY :: string where
  "KEY = ''balance_tracker_v1''"

definition default_state :: "string \<Rightarrow> jv" where
  "default_state today =
     VObj [(''version'', VNum (Fin 1)), (''balance'', VNum (Fin 0)),
           (''expiry'', VStr today), (''history'', VArr [])]"

text \<open>
  \<^verbatim>\<open>load\<close>. \<^verbatim>\<open>getItem\<close> gives \<^verbatim>\<open>null\<close> for a missing key and \<^verbatim>\<open>JSON.parse(null)\<close> is
  \<^verbatim>\<open>null\<close>; whatever \<^verbatim>\<open>JSON.parse\<close> throws is caught.
\<close>

definition load :: "string \<Rightarrow> store option \<Rightarrow> jv" where
  "load today sto =
     (case sto of
        None \<Rightarrow> default_state today
      | Some m \<Rightarrow>
          (case (case m KEY of None \<Rightarrow> Returns VNull | Some t \<Rightarrow> JSON_parse t) of
             Returns v \<Rightarrow> if truthy v then v else default_state today
           | Throws e \<Rightarrow> default_state today
           | Beyond \<Rightarrow> default_state today))"

definition new_Tracker :: "string \<Rightarrow> store option \<Rightarrow> tracker" where
  "new_Tracker today sto = \<lparr>storage = sto, state = load today sto\<rparr>"

text \<open>
  \<^verbatim>\<open>save\<close>. Were the state \<^verbatim>\<open>undefined\<close>, \<^verbatim>\<open>JSON.stringify\<close> would return \<^verbatim>\<open>undefined\<close>
  and \<^verbatim>\<open>setItem\<close> would keep the text \<^verbatim>\<open>"undefined"\<close>, which is not JSON.
\<close>

definition save :: "tracker \<Rightarrow> tracker" where
  "save t =
     (case storage t of
        None \<Rightarrow> t
      | Some m \<Rightarrow>
          t\<lparr>storage :=
              Some (m(KEY \<mapsto> (case JSON_stringify (state t) of
                                  Some txt \<Rightarrow> txt | None \<Rightarrow> NotJSON)))\<rparr>)"

text \<open>The callback of \<^verbatim>\<open>reduce\<close>, \<^verbatim>\<open>(sum, h) => sum + h.delta\<close>, run from the left.\<close>

fun reduce_delta :: "num \<Rightarrow> jv list \<Rightarrow> num outcome" where
  "reduce_delta acc [] = Returns acc"
| "reduce_delta acc (h # hs) =
     (case get_prop h ''delta'' of
        Returns d \<Rightarrow>
          (case js_plus (VNum acc) d of
             Returns s \<Rightarrow> reduce_delta s hs
           | Throws e \<Rightarrow> Throws e
           | Beyond \<Rightarrow> Beyond)
      | Throws e \<Rightarrow> Throws e
      | Beyond \<Rightarrow> Beyond)"

text \<open>
  \<^verbatim>\<open>recomputeBalance\<close>. A \<^verbatim>\<open>history\<close> that is not an array has no \<^verbatim>\<open>reduce\<close> to call.
\<close>

definition recomputeBalance :: "tracker \<Rightarrow> unit outcome \<times> tracker" where
  "recomputeBalance t =
     (case get_prop (state t) ''history'' of
        Returns (VArr hs) \<Rightarrow>
          (case reduce_delta (Fin 0) hs of
             Returns s \<Rightarrow>
               (case set_prop (state t) ''balance'' (VNum s) of
                  Returns st \<Rightarrow> (Returns (), t\<lparr>state := st\<rparr>)
                | Throws e \<Rightarrow> (Throws e, t)
                | Beyond \<Rightarrow> (Beyond, t))
           | Throws e \<Rightarrow> (Throws e, t)
           | Beyond \<Rightarrow> (Beyond, t))
      | Returns _ \<Rightarrow> (Throws TypeError, t)
      | Throws e \<Rightarrow> (Throws e, t)
      | Beyond \<Rightarrow> (Beyond, t))"

text \<open>
  \<^verbatim>\<open>undo\<close>. \<^verbatim>\<open>pop\<close> shortens the array in place; when \<^verbatim>\<open>recomputeBalance\<close> throws
  after it, the shortened history stays and nothing is saved.
\<close>

definition undo :: "tracker \<Rightarrow> bool outcome \<times> tracker" where
  "undo t =
     (case get_prop (state t) ''history'' of
        Returns h \<Rightarrow>
          (case get_prop h ''length'' of
             Returns len \<Rightarrow>
               if \<not> truthy len then (Returns False, t)
               else
                 (case h of
                    VArr hs \<Rightarrow>
                      (case set_prop (state t) ''history'' (VArr (butlast hs)) of
                         Returns st \<Rightarrow>
                           (case recomputeBalance (t\<lparr>state := st\<rparr>) of
                              (Returns u, t') \<Rightarrow> (Returns True, save t')
                            | (Throws e, t') \<Rightarrow> (Throws e, t')
                            | (Beyond, t') \<Rightarrow> (Beyond, t'))
                       | Throws e \<Rightarrow> (Throws e, t)
                       | Beyond \<Rightarrow> (Beyond, t))
                  | _ \<Rightarrow> (Throws TypeError, t))
           | Throws e \<Rightarrow> (Throws e, t)
           | Beyond \<Rightarrow> (Beyond, t))
      | Throws e \<Rightarrow> (Throws e, t)
      | Beyond \<Rightarrow> (Beyond, t))"

definition updateExpiry :: "string \<Rightarrow> tracker \<Rightarrow> unit outcome \<times> tracker" where
  "updateExpiry date t =
     (case set_prop (state t) ''expiry'' (VStr date) of
        Returns st \<Rightarrow> (Returns (), save (t\<lparr>state := st\<rparr>))
      | Throws e \<Rightarrow> (Throws e, t)
      | Beyond \<Rightarrow> (Beyond, t))"

text \<open>
  \<^verbatim>\<open>importData\<close>. The test is \<^verbatim>\<open>!data.version || !Array.isArray(data.history)\<close>; reading
  \<^verbatim>\<open>data.version\<close> throws when the text spells \<^verbatim>\<open>null\<close>.
\<close>

definition importData :: "jtext \<Rightarrow> tracker \<Rightarrow> unit outcome \<times> tracker" where
  "importData jsonString t =
     (case JSON_parse jsonString of
        Returns data \<Rightarrow>
          (case get_prop data ''version'' of
             Returns v \<Rightarrow>
               if \<not> truthy v then (Throws InvalidDataFormat, t)
               else
                 (case get_prop data ''history'' of
                    Returns h \<Rightarrow>
                      if \<not> isArray h then (Throws InvalidDataFormat, t)
                      else (Returns (), save (t\<lparr>state := data\<rparr>))
                  | Throws e \<Rightarrow> (Throws e, t)
                  | Beyond \<Rightarrow> (Beyond, t))
           | Throws e \<Rightarrow> (Throws e, t)
           | Beyond \<Rightarrow> (Beyond, t))
      | Throws e \<Rightarrow> (Throws e, t)
      | Beyond \<Rightarrow> (Beyond, t))"

text \<open>\<^verbatim>\<open>exportData\<close>: \<^verbatim>\<open>JSON.stringify(this.state, null, 2)\<close>.\<close>

definition exportData :: "tracker \<Rightarrow> jtext option" where
  "exportData t = JSON_stringify (state t)"

text \<open>\<^verbatim>\<open>String.prototype.trim\<close>.\<close>

definition trim :: "string \<Rightarrow> string" where
  "trim s = rev (dropWhile is_space (rev (dropWhile is_space s)))"

text \<open>
  \<^verbatim>\<open>addEntry\<close>. The balance is assigned before \<^verbatim>\<open>push\<close> is called, so when
  \<^verbatim>\<open>history\<close> is not an array the call throws with the new balance in place.
\<close>

text \<open>The sign put in front: \<^verbatim>\<open>if (!/^[+\-*/]/.test(cleanExpr)) cleanExpr = "+" + cleanExpr\<close>.\<close>

definition with_sign :: "string \<Rightarrow> string" where
  "with_sign s =
     (case s of
        [] \<Rightarrow> ''+''
      | c # _ \<Rightarrow> if c \<in> set ''+-*/'' then s else CHR ''+'' # s)"

definition addEntry :: "nat \<Rightarrow> string \<Rightarrow> string \<Rightarrow> tracker \<Rightarrow> num outcome \<times> tracker" where
  "addEntry now expr desc t =
     (if trim expr = [] then (Throws EmptyExpression, t)
      else
        let cleanExpr = with_sign (trim expr) in
        (case evalMath cleanExpr of
           Returns delta \<Rightarrow>
             (case get_prop (state t) ''balance'' of
                Returns b \<Rightarrow>
                  (case js_plus b (VNum delta) of
                     Returns s \<Rightarrow>
                       (case set_prop (state t) ''balance'' (VNum (round2 s)) of
                          Returns st \<Rightarrow>
                            (case get_prop st ''history'' of
                               Returns (VArr hs) \<Rightarrow>
                                 (case set_prop st ''history''
                                         (VArr (hs @ [VObj [(''ts'', VNum (Fin (of_nat now))),
                                                            (''expr'', VStr cleanExpr),
                                                            (''desc'', VStr desc),
                                                            (''delta'', VNum delta),
                                                            (''balance'', VNum (round2 s))]])) of
                                    Returns st' \<Rightarrow> (Returns delta, save (t\<lparr>state := st'\<rparr>))
                                  | Throws e \<Rightarrow> (Throws e, t\<lparr>state := st\<rparr>)
                                  | Beyond \<Rightarrow> (Beyond, t\<lparr>state := st\<rparr>))
                             | Returns _ \<Rightarrow> (Throws TypeError, t\<lparr>state := st\<rparr>)
                             | Throws e \<Rightarrow> (Throws e, t\<lparr>state := st\<rparr>)
                             | Beyond \<Rightarrow> (Beyond, t\<lparr>state := st\<rparr>))
                        | Throws e \<Rightarrow> (Throws e, t)
                        | Beyond \<Rightarrow> (Beyond, t))
                   | Throws e \<Rightarrow> (Throws e, t)
                   | Beyond \<Rightarrow> (Beyond, t))
              | Throws e \<Rightarrow> (Throws e, t)
              | Beyond \<Rightarrow> (Beyond, t))
         | Throws e \<Rightarrow> (Throws e, t)
         | Beyond \<Rightarrow> (Beyond, t)))"

subsection \<open>Vocabulary of the properties\<close>

text \<open>A property of a value, \<^verbatim>\<open>undefined\<close> where reading it would throw.\<close>

definition read_prop :: "jv \<Rightarrow> string \<Rightarrow> jv" where
  "read_prop v k = (case get_prop v k of Returns x \<Rightarrow> x | Throws e \<Rightarrow> VUndef | Beyond \<Rightarrow> VUndef)"

text \<open>The \<^verbatim>\<open>delta\<close> of a history entry, as the callback of \<^verbatim>\<open>reduce\<close> adds it.\<close>

definition entry_delta :: "jv \<Rightarrow> num" where
  "entry_delta h = to_number (read_prop h ''delta'')"

text \<open>A run of \<^verbatim>\<open>addEntry\<close> calls, each given its clock, text and description, all returning.\<close>

fun run_adds :: "tracker \<Rightarrow> (nat \<times> string \<times> string) list \<Rightarrow> tracker option" where
  "run_adds t [] = Some t"
| "run_adds t ((now, expr, desc) # calls) =
     (case addEntry now expr desc t of
        (Returns delta, t') \<Rightarrow> run_adds t' calls
      | (Throws e, t') \<Rightarrow> None
      | (Beyond, t') \<Rightarrow> None)"

text \<open>The balance that rounding after every addition builds from a list of deltas.\<close>

definition incremental :: "num list \<Rightarrow> num" where
  "incremental ds = foldl (\<lambda>b d. round2 (num_add b d)) (Fin 0) ds"

text \<open>
  Rounding with a tie going away from zero, as the specification words it: to an
  integer, and to two decimals.
\<close>

definition round_half_away :: "rat \<Rightarrow> int" where
  "round_half_away y = (if y < 0 then - \<lfloor>- y + 1 / 2\<rfloor> else \<lfloor>y + 1 / 2\<rfloor>)"

definition round_half_away2 :: "rat \<Rightarrow> rat" where
  "round_half_away2 x = of_int (round_half_away (x * 100)) / 100"

text \<open>
  The specification's \<open>InvalidFormat\<close>: the text cannot be parsed, or what it spells
  lacks a truthy \<^verbatim>\<open>version\<close>, or its \<^verbatim>\<open>history\<close> is not a sequence.
\<close>

definition invalid_format :: "jtext \<Rightarrow> bool" where
  "invalid_format txt =
     (case txt of
        NotJSON \<Rightarrow> True
      | Doc j \<Rightarrow> \<not> truthy (read_prop (of_json j) ''version'') \<or> \<not> isArray (read_prop (of_json j) ''history''))"

text \<open>
  The life of a tracker: calls of its methods, and the page loaded again, which builds
  a new tracker on the same storage. A call that throws leaves the tracker as it is
  then; the user interface catches what is thrown and goes on.
\<close>

datatype call =
    AddEntry nat string string
  | Undo
  | UpdateExpiry string
  | ImportData jtext
  | RecomputeBalance
  | Reload string

definition after :: "'a outcome \<times> tracker \<Rightarrow> tracker option" where
  "after r = (case fst r of Beyond \<Rightarrow> None | Returns x \<Rightarrow> Some (snd r) | Throws e \<Rightarrow> Some (snd r))"

fun perform :: "call \<Rightarrow> tracker \<Rightarrow> tracker option" where
  "perform (AddEntry now expr desc) t = after (addEntry now expr desc t)"
| "perform Undo t = after (undo t)"
| "perform (UpdateExpiry date) t = after (updateExpiry date t)"
| "perform (ImportData txt) t = after (importData txt t)"
| "perform RecomputeBalance t = after (recomputeBalance t)"
| "perform (Reload today) t = Some (new_Tracker today (storage t))"

fun run :: "tracker \<Rightarrow> call list \<Rightarrow> tracker option" where
  "run t [] = Some t"
| "run t (c # cs) = (case perform c t of None \<Rightarrow> None | Some t' \<Rightarrow> run t' cs)"

text \<open>A storage that holds nothing under the tracker's key yet.\<close>

definition fresh :: "store option \<Rightarrow> bool" where
  "fresh sto = (case sto of None \<Rightarrow> True | Some m \<Rightarrow> m KEY = None)"

text \<open>
  A value that \<^verbatim>\<open>JSON.stringify\<close> writes in full: every number a finite double other
  than the negative zero, nothing undefined.
\<close>

fun plain :: "jv \<Rightarrow> bool" where
  "plain VUndef = False"
| "plain VNull = True"
| "plain (VBool b) = True"
| "plain (VNum n) = (case n of Fin q \<Rightarrow> fl q = Fin q | _ \<Rightarrow> False)"
| "plain (VStr s) = True"
| "plain (VArr xs) = list_all plain xs"
| "plain (VObj kvs) = list_all (\<lambda>(k, v). plain v) kvs"

text \<open>
  What the specification calls having no valid snapshot: no storage, nothing under the
  key, or a text there that \<^verbatim>\<open>importData\<close> would refuse.
\<close>

definition no_valid_snapshot :: "store option \<Rightarrow> bool" where
  "no_valid_snapshot sto =
     (case sto of
        None \<Rightarrow> True
      | Some m \<Rightarrow> (case m KEY of None \<Rightarrow> True | Some t \<Rightarrow> invalid_format t))"

text \<open>
  A state that is a ledger: an object whose \<^verbatim>\<open>balance\<close> is the number \<open>b\<close> and whose
  \<^verbatim>\<open>history\<close> is the array \<open>hs\<close>.
\<close>

definition ledger :: "jv \<Rightarrow> num \<Rightarrow> jv list \<Rightarrow> bool" where
  "ledger v b hs \<longleftrightarrow>
     (\<exists>kvs. v = VObj kvs \<and> map_of kvs ''balance'' = Some (VNum b) \<and>
            map_of kvs ''history'' = Some (VArr hs))"

text \<open>
  The shape that every state of a tracker keeps, also through being written and read:
  an object with an array for \<^verbatim>\<open>history\<close>. A tracker is sound when its state has that
  shape and so has what its storage keeps under the key.
\<close>

definition snapshot_shape :: "jv \<Rightarrow> bool" where
  "snapshot_shape v \<longleftrightarrow> (\<exists>kvs hs. v = VObj kvs \<and> map_of kvs ''history'' = Some (VArr hs))"

definition sound :: "tracker \<Rightarrow> bool" where
  "sound t \<longleftrightarrow>
     snapshot_shape (state t) \<and>
     (\<forall>m x. storage t = Some m \<longrightarrow> m KEY = Some x \<longrightarrow>
        (\<exists>j. x = Doc j \<and> snapshot_shape (of_json j)))"

subsection \<open>Arithmetic texts\<close>

text \<open>
  The specification's side of \<^verbatim>\<open>evalMath\<close>: the texts of infix arithmetic and what they
  are worth. An expression is kept as it is written: a literal with its digits before
  and after the point, a parenthesis, a sign, the four operations, and white space in
  front of or behind an expression.
\<close>

datatype aexp =
    Lit string string
  | Paren aexp
  | Neg aexp
  | Pos aexp
  | Add aexp aexp
  | Sub aexp aexp
  | Mul aexp aexp
  | Div aexp aexp
  | Lead char aexp
  | Trail aexp char

text \<open>A literal read in base ten.\<close>

definition decimal :: "string \<Rightarrow> string \<Rightarrow> rat" where
  "decimal ds fs = of_nat (digits 10 ds) + of_nat (digits 10 fs) / 10 ^ length fs"

fun render :: "aexp \<Rightarrow> string" where
  "render (Lit ds fs) = ds @ (if fs = [] then [] else CHR ''.'' # fs)"
| "render (Paren e) = CHR ''('' # render e @ '')''"
| "render (Neg e) = CHR ''-'' # render e"
| "render (Pos e) = CHR ''+'' # render e"
| "render (Add a b) = render a @ CHR ''+'' # render b"
| "render (Sub a b) = render a @ CHR ''-'' # render b"
| "render (Mul a b) = render a @ CHR ''*'' # render b"
| "render (Div a b) = render a @ CHR ''/'' # render b"
| "render (Lead c e) = c # render e"
| "render (Trail e c) = render e @ [c]"

text \<open>How tightly the outermost operator binds: sums 0, products 1, everything else 2.\<close>

fun level :: "aexp \<Rightarrow> nat" where
  "level (Lit ds fs) = 2"
| "level (Paren e) = 2"
| "level (Neg e) = 2"
| "level (Pos e) = 2"
| "level (Mul a b) = 1"
| "level (Div a b) = 1"
| "level (Add a b) = 0"
| "level (Sub a b) = 0"
| "level (Lead c e) = level e"
| "level (Trail e c) = level e"

text \<open>
  The texts of conventional arithmetic. A literal has a digit, and no zero in front of
  another digit. The operand of a sign is a literal, a parenthesis or a signed
  operand; the right operand of \<^verbatim>\<open>*\<close> and \<^verbatim>\<open>/\<close> likewise, and their left operand may be
  a product; the right operand of \<^verbatim>\<open>+\<close> and \<^verbatim>\<open>-\<close> may be a product and their left
  operand anything. So a sum inside a product stands in parentheses, and operators of
  one rank group from the left. Two plus signs or two minus signs do not touch.
\<close>

fun well_formed :: "aexp \<Rightarrow> bool" where
  "well_formed (Lit ds fs) \<longleftrightarrow>
     list_all is_digit ds \<and> list_all is_digit fs \<and> (ds \<noteq> [] \<or> fs \<noteq> []) \<and>
     (case ds of c # d # _ \<Rightarrow> c \<noteq> CHR ''0'' | _ \<Rightarrow> True)"
| "well_formed (Paren e) \<longleftrightarrow> well_formed e"
| "well_formed (Neg e) \<longleftrightarrow> well_formed e \<and> 2 \<le> level e \<and> hd (render e) \<noteq> CHR ''-''"
| "well_formed (Pos e) \<longleftrightarrow> well_formed e \<and> 2 \<le> level e \<and> hd (render e) \<noteq> CHR ''+''"
| "well_formed (Add a b) \<longleftrightarrow>
     well_formed a \<and> well_formed b \<and> 1 \<le> level b \<and> hd (render b) \<noteq> CHR ''+''"
| "well_formed (Sub a b) \<longleftrightarrow>
     well_formed a \<and> well_formed b \<and> 1 \<le> level b \<and> hd (render b) \<noteq> CHR ''-''"
| "well_formed (Mul a b) \<longleftrightarrow> well_formed a \<and> well_formed b \<and> 1 \<le> level a \<and> 2 \<le> level b"
| "well_formed (Div a b) \<longleftrightarrow> well_formed a \<and> well_formed b \<and> 1 \<le> level a \<and> 2 \<le> level b"
| "well_formed (Lead c e) \<longleftrightarrow> is_space c \<and> well_formed e"
| "well_formed (Trail e c) \<longleftrightarrow> is_space c \<and> well_formed e"

text \<open>
  The value of an expression in the arithmetic of doubles: every literal is the
  double nearest to what it spells, and every operation rounds.
\<close>

fun dval :: "aexp \<Rightarrow> num" where
  "dval (Lit ds fs) = fl (decimal ds fs)"
| "dval (Paren e) = dval e"
| "dval (Neg e) = num_neg (dval e)"
| "dval (Pos e) = dval e"
| "dval (Add a b) = num_add (dval a) (dval b)"
| "dval (Sub a b) = num_sub (dval a) (dval b)"
| "dval (Mul a b) = num_mul (dval a) (dval b)"
| "dval (Div a b) = num_div (dval a) (dval b)"
| "dval (Lead c e) = dval e"
| "dval (Trail e c) = dval e"

text \<open>The value of an expression in exact arithmetic; none when it divides by zero.\<close>

fun aval :: "aexp \<Rightarrow> rat option" where
  "aval (Lit ds fs) = Some (decimal ds fs)"
| "aval (Paren e) = aval e"
| "aval (Neg e) = map_option uminus (aval e)"
| "aval (Pos e) = aval e"
| "aval (Add a b) = (case (aval a, aval b) of (Some x, Some y) \<Rightarrow> Some (x + y) | _ \<Rightarrow> None)"
| "aval (Sub a b) = (case (aval a, aval b) of (Some x, Some y) \<Rightarrow> Some (x - y) | _ \<Rightarrow> None)"
| "aval (Mul a b) = (case (aval a, aval b) of (Some x, Some y) \<Rightarrow> Some (x * y) | _ \<Rightarrow> None)"
| "aval (Div a b) =
     (case (aval a, aval b) of
        (Some x, Some y) \<Rightarrow> if y = 0 then None else Some (x / y)
      | _ \<Rightarrow> None)"
| "aval (Lead c e) = aval e"
| "aval (Trail e c) = aval e"

text \<open>
  For the proofs: the tokens of an expression, a text that would prolong the literal
  before it, and tokens that would prolong the product before them.
\<close>

fun toks :: "aexp \<Rightarrow> token list" where
  "toks (Lit ds fs) = [TNum (decimal ds fs)]"
| "toks (Paren e) = TOpen # toks e @ [TClose]"
| "toks (Neg e) = TMinus # toks e"
| "toks (Pos e) = TPlus # toks e"
| "toks (Add a b) = toks a @ TPlus # toks b"
| "toks (Sub a b) = toks a @ TMinus # toks b"
| "toks (Mul a b) = toks a @ TStar # toks b"
| "toks (Div a b) = toks a @ TSlash # toks b"
| "toks (Lead c e) = toks e"
| "toks (Trail e c) = toks e"

definition continues :: "string \<Rightarrow> bool" where
  "continues rest = (case rest of [] \<Rightarrow> False | c # _ \<Rightarrow> is_digit c \<or> c = CHR ''.'')"

definition starts_mulop :: "token list \<Rightarrow> bool" where
  "starts_mulop r = (case r of TStar # _ \<Rightarrow> True | TSlash # _ \<Rightarrow> True | _ \<Rightarrow> False)"

section \<open>Properties\<close>

subsection \<open>Evaluating on numerals\<close>

text \<open>The floor and the ceiling of a quotient of two numerals of type \<open>rat\<close>, for the simplifier.\<close>

lemma floor_rat_quotient [simp]:
  "\<lfloor>(numeral a :: rat) / numeral b\<rfloor> = numeral a div numeral b"
  using floor_divide_of_int_eq [of "numeral a" "numeral b", where ?'a = rat] by simp

lemma floor_rat_neg_quotient [simp]:
  "\<lfloor>- ((numeral a :: rat) / numeral b)\<rfloor> = - numeral a div numeral b"
  using floor_divide_of_int_eq [of "- numeral a" "numeral b", where ?'a = rat] by simp

lemma floor_rat_unit_fraction [simp]:
  "\<lfloor>(1 :: rat) / numeral b\<rfloor> = 1 div numeral b"
  using floor_divide_of_int_eq [of 1 "numeral b", where ?'a = rat] by simp

lemma floor_rat_neg_unit_fraction [simp]:
  "\<lfloor>- ((1 :: rat) / numeral b)\<rfloor> = - 1 div numeral b"
  using floor_divide_of_int_eq [of "- 1" "numeral b", where ?'a = rat] by simp

lemma ceiling_rat_quotient [simp]:
  "\<lceil>(numeral a :: rat) / numeral b\<rceil> = - (- numeral a div numeral b)"
  using floor_divide_of_int_eq [of "- numeral a" "numeral b", where ?'a = rat]
  by (simp add: ceiling_def)

lemmas fl_defs = fl_def fl_at_def pack_def ilog2_def round_even_def signed_zero_def
  signed_inf_def bits.simps

lemmas num_defs = num_add_def num_sub_def num_mul_def num_div_def round2_def fl_defs

lemmas eval_defs = evalMath_def allowed_def is_digit_def is_space_def Function_call_def
  return_statement_def int_literal_def frac_literal_def legacy_octal_def digits_def digit_val_def
  is_octal_digit_def

lemmas ledger_defs = addEntry_def undo_def recomputeBalance_def importData_def exportData_def
  updateExpiry_def save_def new_Tracker_def load_def default_state_def trim_def with_sign_def
  js_plus_def JSON_parse_def JSON_stringify_def read_prop_def KEY_def

text \<open>
  Doubles at work: \<^verbatim>\<open>0.1 + 0.2\<close> is not the double nearest to 0.3, and the balance
  after \<^verbatim>\<open>addEntry("1.005")\<close> on a new tracker is 1, since the double nearest to
  1.005 lies below it.
\<close>

lemma doubles_at_work:
  "fl (1 / 10) = Fin (3602879701896397 / 36028797018963968)"
  "num_add (fl (1 / 10)) (fl (2 / 10)) = Fin (1351079888211149 / 4503599627370496)"
  "fl (3 / 10) = Fin (5404319552844595 / 18014398509481984)"
  "round2 (num_add (Fin 0) (fl (1005 / 1000))) = Fin 1"
  "round2 (num_add (Fin 0) (fl (1345 / 1000))) = fl (135 / 100)"
  "round2 (num_add (Fin 0) (fl (145 / 1000))) = fl (14 / 100)"
  "round2 (num_add (Fin 0) (fl (2675 / 1000))) = fl (268 / 100)"
  by (simp_all add: num_defs)


subsection \<open>Serialised text and values\<close>

text \<open>
  Only \<^verbatim>\<open>undefined\<close> has no text, parsing never gives \<^verbatim>\<open>undefined\<close>, and a plain value
  is read back as it was written.
\<close>

lemma to_json_defined: "v \<noteq> VUndef \<Longrightarrow> \<exists>j. to_json v = Some j"
  by (cases v) simp_all

lemma of_json_defined: "of_json j \<noteq> VUndef"
  by (cases j) simp_all

lemma plain_roundtrip: "plain v \<Longrightarrow> \<exists>j. to_json v = Some j \<and> of_json j = v"
proof (induction v)
  case (VArr xs)
  have "\<forall>x\<in>set xs. \<exists>j. to_json x = Some j \<and> of_json j = x"
    using VArr by (auto simp: list_all_iff)
  then have "map of_json (map (\<lambda>x. case to_json x of None \<Rightarrow> JNull | Some j \<Rightarrow> j) xs) = xs"
    by (induction xs) auto
  then show ?case by simp
next
  case (VObj kvs)
  have "\<forall>(k, v)\<in>set kvs. \<exists>j. to_json v = Some j \<and> of_json j = v"
    using VObj by (fastforce simp: list_all_iff)
  then have "map (\<lambda>(k, v). (k, of_json v))
               (concat (map (\<lambda>(k, v). case to_json v of None \<Rightarrow> [] | Some j \<Rightarrow> [(k, j)]) kvs)) = kvs"
    by (induction kvs) auto
  then show ?case by simp
next
  case (VNum n)
  then show ?case by (cases n) auto
qed auto

lemma get_prop_not_Beyond: "get_prop v k \<noteq> Beyond"
  by (cases v) auto

lemma state_save [simp]: "state (save t) = state t"
  by (simp add: save_def split: option.splits)

lemma storage_save:
  "to_json (state t) = Some j \<Longrightarrow> storage (save t) = map_option (\<lambda>m. m(KEY \<mapsto> Doc j)) (storage t)"
  by (simp add: save_def JSON_stringify_def split: option.splits)

subsection \<open>Import\<close>

text \<open>What \<^verbatim>\<open>importData\<close> does on every text.\<close>

lemma importData_result:
  "importData payload t =
     (case payload of
        NotJSON \<Rightarrow> (Throws SyntaxError, t)
      | Doc j \<Rightarrow>
          if of_json j = VNull then (Throws TypeError, t)
          else if invalid_format payload then (Throws InvalidDataFormat, t)
          else (Returns (), save (t\<lparr>state := of_json j\<rparr>)))"
proof (cases payload)
  case NotJSON
  then show ?thesis by (simp add: importData_def JSON_parse_def)
next
  case (Doc j)
  show ?thesis
    using Doc of_json_defined [of j]
    by (cases "of_json j")
       (auto simp: invalid_format_def importData_def JSON_parse_def read_prop_def)
qed

lemma invalid_format_null: "of_json j = VNull \<Longrightarrow> invalid_format (Doc j)"
  by (simp add: invalid_format_def read_prop_def)

text \<open>
  Claim C5, as stated, fails in the error it names: a text that cannot be parsed
  makes \<^verbatim>\<open>importData\<close> throw the \<open>SyntaxError\<close> of \<^verbatim>\<open>JSON.parse\<close>, and the text \<^verbatim>\<open>null\<close>
  the \<open>TypeError\<close> of reading \<^verbatim>\<open>data.version\<close>; neither is the error
  \<^verbatim>\<open>"Invalid data format"\<close>.
\<close>

theorem importData_other_errors_counterexample:
  "invalid_format NotJSON \<and>
   importData NotJSON (new_Tracker ''2026-01-01'' None) =
     (Throws SyntaxError, new_Tracker ''2026-01-01'' None) \<and>
   SyntaxError \<noteq> InvalidDataFormat \<and>
   invalid_format (Doc JNull) \<and>
   importData (Doc JNull) (new_Tracker ''2026-01-01'' None) =
     (Throws TypeError, new_Tracker ''2026-01-01'' None) \<and>
   TypeError \<noteq> InvalidDataFormat"
  by (simp add: invalid_format_def read_prop_def importData_def JSON_parse_def)

text \<open>
  Claim C5, amended. \<^verbatim>\<open>importData\<close> throws exactly when the text is invalid in the
  specification's sense (it cannot be parsed, or what it spells has no truthy
  \<^verbatim>\<open>version\<close>, or its \<^verbatim>\<open>history\<close> is not an array). What it throws is a \<open>SyntaxError\<close>
  for a text that cannot be parsed, a \<open>TypeError\<close> for the text \<^verbatim>\<open>null\<close>, and the
  error \<^verbatim>\<open>"Invalid data format"\<close> in every other case; the tracker, state and storage,
  is then as before. Otherwise it returns, the state is the parsed document and
  nothing of the old state remains, and the storage, when there is one, holds under
  the key the text of that state.
\<close>

theorem importData_three_errors:
  "(invalid_format payload \<longrightarrow>
      importData payload t =
        (Throws (case payload of
                   NotJSON \<Rightarrow> SyntaxError
                 | Doc j \<Rightarrow> if of_json j = VNull then TypeError else InvalidDataFormat), t)) \<and>
   (\<not> invalid_format payload \<longrightarrow>
      (\<exists>j j'. payload = Doc j \<and> to_json (of_json j) = Some j' \<and>
           importData payload t =
             (Returns (), \<lparr>storage = map_option (\<lambda>m. m(KEY \<mapsto> Doc j')) (storage t),
                            state = of_json j\<rparr>)))"
proof (cases payload)
  case NotJSON
  then show ?thesis by (simp add: importData_result invalid_format_def)
next
  case (Doc j)
  from to_json_defined [OF of_json_defined [of j]] obtain j' where
    j': "to_json (of_json j) = Some j'" by blast
  have "save (t\<lparr>state := of_json j\<rparr>) =
          \<lparr>storage = map_option (\<lambda>m. m(KEY \<mapsto> Doc j')) (storage t), state = of_json j\<rparr>"
    using j' by (cases "storage t") (simp_all add: save_def JSON_stringify_def)
  then show ?thesis
    using Doc j' invalid_format_null [of j] by (auto simp: importData_result)
qed

theorem importData_three_errors_witness:
  "invalid_format (Doc (JObj [(''balance'', JNum 5)])) \<and>
   importData (Doc (JObj [(''balance'', JNum 5)])) (new_Tracker ''2026-01-01'' None) =
     (Throws InvalidDataFormat, new_Tracker ''2026-01-01'' None) \<and>
   invalid_format (Doc (JObj [(''version'', JNum 1), (''history'', JStr ''none'')])) \<and>
   importData (Doc (JObj [(''version'', JNum 1), (''history'', JStr ''none'')]))
       (new_Tracker ''2026-01-01'' None) =
     (Throws InvalidDataFormat, new_Tracker ''2026-01-01'' None) \<and>
   invalid_format NotJSON \<and>
   importData NotJSON (new_Tracker ''2026-01-01'' None) =
     (Throws SyntaxError, new_Tracker ''2026-01-01'' None) \<and>
   \<not> invalid_format (Doc (JObj [(''version'', JNum 1), (''history'', JArr [])])) \<and>
   importData (Doc (JObj [(''version'', JNum 1), (''history'', JArr [])]))
       (new_Tracker ''2026-01-01'' None) =
     (Returns (), \<lparr>storage = None,
                    state = VObj [(''version'', VNum (Fin 1)), (''history'', VArr [])]\<rparr>)"
  using importData_three_errors [of "Doc (JObj [(''balance'', JNum 5)])"
          "new_Tracker ''2026-01-01'' None"]
        importData_three_errors [of "Doc (JObj [(''version'', JNum 1), (''history'', JStr ''none'')])"
          "new_Tracker ''2026-01-01'' None"]
        importData_three_errors [of NotJSON "new_Tracker ''2026-01-01'' None"]
        importData_three_errors [of "Doc (JObj [(''version'', JNum 1), (''history'', JArr [])])"
          "new_Tracker ''2026-01-01'' None"]
  by (simp add: invalid_format_def read_prop_def new_Tracker_def load_def fl_defs)


text \<open>
  Claim C10, as stated, fails in its last clause: after an import has broken the
  invariant, not only \<^verbatim>\<open>undo\<close> and \<^verbatim>\<open>recomputeBalance\<close> restore it. The run below
  imports a balance of 1/1024 over an empty history, whose deltas add up to 0; then
  \<^verbatim>\<open>addEntry("1", "a")\<close> rounds the difference away: the balance is 1, and so is the
  rounded sum of the deltas.
\<close>

theorem importData_invariant_restored_by_addEntry_counterexample:
  "importData (Doc (JObj [(''version'', JNum 1), (''balance'', JNum (1 / 1024)),
                          (''expiry'', JStr ''2026-12-31''), (''history'', JArr [])]))
     (new_Tracker ''2026-01-01'' None) =
   (Returns (),
    \<lparr>storage = None,
     state = VObj [(''version'', VNum (Fin 1)), (''balance'', VNum (Fin (1 / 1024))),
                   (''expiry'', VStr ''2026-12-31''), (''history'', VArr [])]\<rparr>) \<and>
   reduce_delta (Fin 0) [] = Returns (Fin 0) \<and>
   \<not> strict_equal (Fin (1 / 1024)) (round2 (Fin 0)) \<and>
   addEntry 1 ''1'' ''a''
     \<lparr>storage = None,
      state = VObj [(''version'', VNum (Fin 1)), (''balance'', VNum (Fin (1 / 1024))),
                    (''expiry'', VStr ''2026-12-31''), (''history'', VArr [])]\<rparr> =
   (Returns (Fin 1),
    \<lparr>storage = None,
     state = VObj [(''version'', VNum (Fin 1)), (''balance'', VNum (Fin 1)),
                   (''expiry'', VStr ''2026-12-31''),
                   (''history'', VArr [VObj [(''ts'', VNum (Fin 1)), (''expr'', VStr ''+1''),
                                             (''desc'', VStr ''a''), (''delta'', VNum (Fin 1)),
                                             (''balance'', VNum (Fin 1))]])]\<rparr>) \<and>
   reduce_delta (Fin 0) [VObj [(''ts'', VNum (Fin 1)), (''expr'', VStr ''+1''),
                               (''desc'', VStr ''a''), (''delta'', VNum (Fin 1)),
                               (''balance'', VNum (Fin 1))]] = Returns (Fin 1) \<and>
   strict_equal (Fin 1) (round2 (Fin 1))"
  by (simp add: eval_defs ledger_defs num_defs strict_equal_def)

text \<open>
  Claim C10, amended. A successful \<^verbatim>\<open>importData\<close> recomputes nothing: the state is the
  parsed document, so its \<^verbatim>\<open>balance\<close> and its \<^verbatim>\<open>history\<close> are the ones the text
  carries, whatever the deltas of that history add up to; so an import can break the
  invariant that the balance is the rounded sum of the deltas. The witness imports a
  balance of 500 over a history whose only delta is 1. Nothing is said here of what
  restores the invariant.
\<close>

theorem importData_keeps_payload_balance:
  "importData payload t = (Returns u, t') \<Longrightarrow>
     \<exists>j. payload = Doc j \<and> state t' = of_json j \<and>
         read_prop (state t') ''balance'' = read_prop (of_json j) ''balance'' \<and>
         (\<forall>b hs. ledger (of_json j) b hs \<longrightarrow> ledger (state t') b hs)"
  by (cases payload) (auto simp: importData_result split: if_splits)

theorem importData_keeps_payload_balance_witness:
  "importData
     (Doc (JObj [(''version'', JNum 1), (''balance'', JNum 500), (''expiry'', JStr ''2026-12-31''),
                 (''history'', JArr [JObj [(''ts'', JNum 123), (''expr'', JStr ''+1''),
                                           (''desc'', JStr ''imp''), (''delta'', JNum 1),
                                           (''balance'', JNum 1)]])]))
     (new_Tracker ''2026-01-01'' None) =
   (Returns (),
    \<lparr>storage = None,
     state = VObj [(''version'', VNum (Fin 1)), (''balance'', VNum (Fin 500)),
                   (''expiry'', VStr ''2026-12-31''),
                   (''history'', VArr [VObj [(''ts'', VNum (Fin 123)), (''expr'', VStr ''+1''),
                                             (''desc'', VStr ''imp''), (''delta'', VNum (Fin 1)),
                                             (''balance'', VNum (Fin 1))]])]\<rparr>) \<and>
   ledger (VObj [(''version'', VNum (Fin 1)), (''balance'', VNum (Fin 500)),
                   (''expiry'', VStr ''2026-12-31''),
                   (''history'', VArr [VObj [(''ts'', VNum (Fin 123)), (''expr'', VStr ''+1''),
                                             (''desc'', VStr ''imp''), (''delta'', VNum (Fin 1)),
                                             (''balance'', VNum (Fin 1))]])])
     (Fin 500)
     [VObj [(''ts'', VNum (Fin 123)), (''expr'', VStr ''+1''),
            (''desc'', VStr ''imp''), (''delta'', VNum (Fin 1)),
            (''balance'', VNum (Fin 1))]] \<and>
   reduce_delta (Fin 0) [VObj [(''ts'', VNum (Fin 123)), (''expr'', VStr ''+1''),
                               (''desc'', VStr ''imp''), (''delta'', VNum (Fin 1)),
                               (''balance'', VNum (Fin 1))]] = Returns (Fin 1) \<and>
   \<not> strict_equal (Fin 500) (round2 (Fin 1))"
  using importData_keeps_payload_balance
    [of "Doc (JObj [(''version'', JNum 1), (''balance'', JNum 500), (''expiry'', JStr ''2026-12-31''),
                 (''history'', JArr [JObj [(''ts'', JNum 123), (''expr'', JStr ''+1''),
                                           (''desc'', JStr ''imp''), (''delta'', JNum 1),
                                           (''balance'', JNum 1)]])])"
        "new_Tracker ''2026-01-01'' None" "()"]
  by (simp add: ledger_defs ledger_def num_defs strict_equal_def)

subsection \<open>Loading\<close>

text \<open>
  Claim C7, as the specification states it, fails: \<^verbatim>\<open>load\<close> validates nothing. A stored
  text that spells \<^verbatim>\<open>{"foo": 1}\<close> is no valid snapshot (\<^verbatim>\<open>importData\<close> refuses it), yet
  \<^verbatim>\<open>load\<close> makes it the state.
\<close>

theorem load_unvalidated_counterexample:
  "no_valid_snapshot (Some (Map.empty(KEY \<mapsto> Doc (JObj [(''foo'', JNum 1)])))) \<and>
   load ''2026-01-01'' (Some (Map.empty(KEY \<mapsto> Doc (JObj [(''foo'', JNum 1)])))) =
     VObj [(''foo'', VNum (Fin 1))] \<and>
   load ''2026-01-01'' (Some (Map.empty(KEY \<mapsto> Doc (JObj [(''foo'', JNum 1)])))) \<noteq>
     default_state ''2026-01-01''"
  by (simp add: no_valid_snapshot_def invalid_format_def read_prop_def load_def JSON_parse_def
        default_state_def fl_defs)

text \<open>
  Claim C7, amended. \<^verbatim>\<open>load\<close> always yields a state and throws nothing. The state is
  the default one when there is no storage, when nothing is kept under the key, when
  the text kept there is not JSON, and when it spells a falsy value (\<^verbatim>\<open>null\<close>,
  \<^verbatim>\<open>false\<close>, 0, the empty string); any other document becomes the state as it is.
\<close>

theorem load_total:
  "load today sto =
     (case sto of
        None \<Rightarrow> default_state today
      | Some m \<Rightarrow>
          (case m KEY of
             None \<Rightarrow> default_state today
           | Some NotJSON \<Rightarrow> default_state today
           | Some (Doc j) \<Rightarrow> if truthy (of_json j) then of_json j else default_state today))"
  by (simp add: load_def JSON_parse_def split: option.splits jtext.splits)

theorem load_total_witness:
  "load ''2026-01-01'' None = default_state ''2026-01-01'' \<and>
   load ''2026-01-01'' (Some Map.empty) = default_state ''2026-01-01'' \<and>
   load ''2026-01-01'' (Some (Map.empty(KEY \<mapsto> NotJSON))) = default_state ''2026-01-01'' \<and>
   load ''2026-01-01'' (Some (Map.empty(KEY \<mapsto> Doc (JNum 0)))) = default_state ''2026-01-01'' \<and>
   load ''2026-01-01'' (Some (Map.empty(KEY \<mapsto> Doc (JNum 5)))) = VNum (Fin 5)"
  using load_total [of "''2026-01-01''" None] load_total [of "''2026-01-01''" "Some Map.empty"]
    load_total [of "''2026-01-01''" "Some (Map.empty(KEY \<mapsto> NotJSON))"]
    load_total [of "''2026-01-01''" "Some (Map.empty(KEY \<mapsto> Doc (JNum 0)))"]
    load_total [of "''2026-01-01''" "Some (Map.empty(KEY \<mapsto> Doc (JNum 5)))"]
  by (simp add: fl_defs)

subsection \<open>Recomputing the balance, and undo\<close>

text \<open>
  \<^verbatim>\<open>recomputeBalance\<close> on a state whose history is an array of entries: the balance
  becomes the sum that \<^verbatim>\<open>reduce\<close> builds, as it is, and a second call changes nothing.
\<close>

lemma recomputeBalance_sum:
  assumes "state t = VObj kvs" "map_of kvs ''history'' = Some (VArr hs)"
    "reduce_delta (Fin 0) hs = Returns s"
  shows "recomputeBalance t =
           (Returns (), t\<lparr>state := VObj (AList.update ''balance'' (VNum s) kvs)\<rparr>)"
  using assms by (simp add: recomputeBalance_def)

lemma recomputeBalance_twice:
  assumes "recomputeBalance t = (Returns u, t')"
  shows "recomputeBalance t' = (Returns u, t')"
proof -
  from assms obtain kvs hs s where
    st: "state t = VObj kvs" and h: "map_of kvs ''history'' = Some (VArr hs)" and
    s: "reduce_delta (Fin 0) hs = Returns s"
    by (cases "state t")
       (auto simp: recomputeBalance_def split: outcome.splits jv.splits option.splits)
  have t': "t' = t\<lparr>state := VObj (AList.update ''balance'' (VNum s) kvs)\<rparr>"
    using recomputeBalance_sum [OF st h s] assms by simp
  have "recomputeBalance t' =
          (Returns (), t'\<lparr>state := VObj (AList.update ''balance'' (VNum s)
                                         (AList.update ''balance'' (VNum s) kvs))\<rparr>)"
    by (rule recomputeBalance_sum [OF _ _ s]) (simp_all add: t' update_conv' h)
  then show ?thesis by (simp add: t')
qed

text \<open>
  Claim C2 holds of the specification and not of the code: \<^verbatim>\<open>recomputeBalance\<close> does not
  round. After \<^verbatim>\<open>addEntry("0.125", "a")\<close> on a new tracker the balance is 0.13 (the
  double nearest to it), the sum rounded as \<^verbatim>\<open>addEntry\<close> rounds it;
  \<^verbatim>\<open>recomputeBalance()\<close> then makes it 0.125, which is another number.
\<close>

theorem recomputeBalance_unrounded:
  "addEntry 1 ''0.125'' ''a'' (new_Tracker ''2026-01-01'' None) =
     (Returns (Fin (1 / 8)),
      \<lparr>storage = None,
       state = VObj [(''version'', VNum (Fin 1)), (''balance'', VNum (fl (13 / 100))),
                     (''expiry'', VStr ''2026-01-01''),
                     (''history'', VArr [VObj [(''ts'', VNum (Fin 1)), (''expr'', VStr ''+0.125''),
                                               (''desc'', VStr ''a''), (''delta'', VNum (Fin (1 / 8))),
                                               (''balance'', VNum (fl (13 / 100)))]])]\<rparr>) \<and>
   recomputeBalance (snd (addEntry 1 ''0.125'' ''a'' (new_Tracker ''2026-01-01'' None))) =
     (Returns (),
      \<lparr>storage = None,
       state = VObj [(''version'', VNum (Fin 1)), (''balance'', VNum (Fin (1 / 8))),
                     (''expiry'', VStr ''2026-01-01''),
                     (''history'', VArr [VObj [(''ts'', VNum (Fin 1)), (''expr'', VStr ''+0.125''),
                                               (''desc'', VStr ''a''), (''delta'', VNum (Fin (1 / 8))),
                                               (''balance'', VNum (fl (13 / 100)))]])]\<rparr>) \<and>
   round2 (Fin (1 / 8)) = fl (13 / 100) \<and>
   \<not> strict_equal (Fin (1 / 8)) (fl (13 / 100))"
  by (simp add: eval_defs ledger_defs num_defs strict_equal_def)

text \<open>
  \<^verbatim>\<open>undo\<close> on an empty history returns \<^verbatim>\<open>false\<close> and touches nothing, the storage
  included; on a history with entries it removes the last one, recomputes and saves.
\<close>

lemma undo_empty_history:
  "get_prop (state t) ''history'' = Returns (VArr []) \<Longrightarrow> undo t = (Returns False, t)"
  by (simp add: undo_def)

lemma undo_removes_last:
  assumes "state t = VObj kvs" "map_of kvs ''history'' = Some (VArr hs)" "hs \<noteq> []"
    "reduce_delta (Fin 0) (butlast hs) = Returns s"
  shows "undo t =
           (Returns True,
            save (t\<lparr>state := VObj (AList.update ''balance'' (VNum s)
                                    (AList.update ''history'' (VArr (butlast hs)) kvs))\<rparr>))"
proof -
  let ?t1 = "t\<lparr>state := VObj (AList.update ''history'' (VArr (butlast hs)) kvs)\<rparr>"
  have "recomputeBalance ?t1 =
          (Returns (), ?t1\<lparr>state := VObj (AList.update ''balance'' (VNum s)
                                    (AList.update ''history'' (VArr (butlast hs)) kvs))\<rparr>)"
    by (rule recomputeBalance_sum [OF _ _ assms(4)]) (simp_all add: update_conv')
  then show ?thesis using assms(1-3) by (simp add: undo_def)
qed

text \<open>
  Claim C3 holds of the specification and not of the code, through the same missing
  rounding. After \<^verbatim>\<open>addEntry("0.125", "a")\<close> and \<^verbatim>\<open>addEntry("1", "b")\<close> on a new tracker,
  \<^verbatim>\<open>undo()\<close> returns \<^verbatim>\<open>true\<close> and leaves the first entry alone in the history, with a
  balance of 0.125; the sum of the remaining deltas, rounded, is 0.13, which is also
  what the remaining entry records as the balance after it.
\<close>

theorem undo_unrounded:
  "undo (snd (addEntry 2 ''1'' ''b''
           (snd (addEntry 1 ''0.125'' ''a'' (new_Tracker ''2026-01-01'' None))))) =
     (Returns True,
      \<lparr>storage = None,
       state = VObj [(''version'', VNum (Fin 1)), (''balance'', VNum (Fin (1 / 8))),
                     (''expiry'', VStr ''2026-01-01''),
                     (''history'', VArr [VObj [(''ts'', VNum (Fin 1)), (''expr'', VStr ''+0.125''),
                                               (''desc'', VStr ''a''), (''delta'', VNum (Fin (1 / 8))),
                                               (''balance'', VNum (fl (13 / 100)))]])]\<rparr>) \<and>
   round2 (Fin (1 / 8)) = fl (13 / 100) \<and>
   \<not> strict_equal (Fin (1 / 8)) (fl (13 / 100))"
  by (simp add: eval_defs ledger_defs num_defs strict_equal_def)

subsection \<open>Adding an entry\<close>

lemma get_prop_Throws: "get_prop v k = Throws e \<Longrightarrow> e = TypeError"
  by (cases v) (auto split: if_splits)

lemma set_prop_Throws: "set_prop v k x = Throws e \<Longrightarrow> e = TypeError"
  by (cases v) auto

lemma js_plus_not_Throws: "js_plus a b \<noteq> Throws e"
  by (simp add: js_plus_def)

text \<open>Whatever \<^verbatim>\<open>addEntry\<close> throws that is not a \<open>TypeError\<close>, it throws before it writes.\<close>

lemma addEntry_Throws:
  assumes "addEntry now expr desc t = (Throws e, t')" "e \<noteq> TypeError"
  shows "t' = t"
  using assms get_prop_Throws set_prop_Throws js_plus_not_Throws
  unfolding addEntry_def Let_def
  by (auto split: if_splits outcome.splits jv.splits)

text \<open>\<^verbatim>\<open>addEntry\<close> on a ledger, when the text evaluates.\<close>

lemma addEntry_returns:
  assumes "state t = VObj kvs" "map_of kvs ''balance'' = Some (VNum b)"
    "map_of kvs ''history'' = Some (VArr hs)" "trim expr \<noteq> []"
    "evalMath (with_sign (trim expr)) = Returns d"
  shows "addEntry now expr desc t =
    (Returns d,
     save (t\<lparr>state := VObj (AList.update ''history''
        (VArr (hs @ [VObj [(''ts'', VNum (Fin (of_nat now))),
                           (''expr'', VStr (with_sign (trim expr))),
                           (''desc'', VStr desc),
                           (''delta'', VNum d),
                           (''balance'', VNum (round2 (num_add b d)))]]))
        (AList.update ''balance'' (VNum (round2 (num_add b d))) kvs))\<rparr>))"
  using assms by (simp add: addEntry_def js_plus_def Let_def update_conv')

text \<open>
  Claim C8. When the trimmed text is empty \<^verbatim>\<open>addEntry\<close> throws the error for an empty
  expression, and when \<^verbatim>\<open>evalMath\<close> throws \<^verbatim>\<open>addEntry\<close> throws the same; in both cases,
  and whenever what it throws is one of these (the empty-expression error, \<^verbatim>\<open>"bad"\<close>, a
  syntax error), the tracker is as before: same state, same storage. The witness runs
  \<^verbatim>\<open>addEntry(" ", "x")\<close> and \<^verbatim>\<open>addEntry("1+", "x")\<close>.
\<close>

theorem addEntry_failure_leaves_tracker:
  "(trim expr = [] \<longrightarrow> addEntry now expr desc t = (Throws EmptyExpression, t)) \<and>
   (trim expr \<noteq> [] \<longrightarrow> evalMath (with_sign (trim expr)) = Throws e \<longrightarrow>
      addEntry now expr desc t = (Throws e, t)) \<and>
   (addEntry now expr desc t = (Throws e', t') \<longrightarrow>
      e' \<in> {EmptyExpression, ThrownBad, SyntaxError} \<longrightarrow> t' = t)"
  using addEntry_Throws [of now expr desc t e' t']
  by (auto simp: addEntry_def)

theorem addEntry_failure_leaves_tracker_witness:
  "trim '' '' = [] \<and>
   addEntry 1 '' '' ''x'' (new_Tracker ''2026-01-01'' (Some Map.empty)) =
     (Throws EmptyExpression, new_Tracker ''2026-01-01'' (Some Map.empty)) \<and>
   trim ''1+'' \<noteq> [] \<and> evalMath (with_sign (trim ''1+'')) = Throws SyntaxError \<and>
   addEntry 1 ''1+'' ''x'' (new_Tracker ''2026-01-01'' (Some Map.empty)) =
     (Throws SyntaxError, new_Tracker ''2026-01-01'' (Some Map.empty)) \<and>
   SyntaxError \<in> {EmptyExpression, ThrownBad, SyntaxError}"
  using addEntry_failure_leaves_tracker [of "'' ''" 1 "''x''"
          "new_Tracker ''2026-01-01'' (Some Map.empty)"]
        addEntry_failure_leaves_tracker [of "''1+''" 1 "''x''"
          "new_Tracker ''2026-01-01'' (Some Map.empty)" SyntaxError SyntaxError
          "new_Tracker ''2026-01-01'' (Some Map.empty)"]
  by (simp add: eval_defs trim_def with_sign_def fl_defs)


end
